theory Spec2Isabelle
  imports Complex_Main "HOL-Library.Sublist"
begin

section \<open>JavaScript values\<close>

text \<open>
  The worker handles values that come out of \<^verbatim>\<open>response.json()\<close> and out of
  property reads on them. A value is one of JavaScript's primitives, an array or a plain
  object. Numbers are the rationals (a parsed JSON number is only ever tested against zero
  here); strings are \<open>char list\<close>; an object is an association list, read with \<open>map_of\<close>.
\<close>

datatype jsval =
    JUndefined
  | JNull
  | JBool bool
  | JNum rat
  | JStr string
  | JArr "jsval list"
  | JObj "(string \<times> jsval) list"

text \<open>
  The errors a resolver can throw. One constructor per \<^verbatim>\<open>throw new Error(...)\<close> of the
  source, named after the error kinds of the specification, plus the exceptions raised by
  the JavaScript runtime itself.
  \<^item> \<open>ContextUndefined\<close>: message \<^verbatim>\<open>Context is undefined\<close>.
  \<^item> \<open>EnvUndefined k\<close>: message \<^verbatim>\<open>Env object is undefined in context, ...\<close>; the
    message interpolates \<^verbatim>\<open>context.DEEPSEEK_API_KEY\<close>, carried here as \<open>k\<close>.
  \<^item> \<open>MissingConfiguration\<close>: the message that names \<^verbatim>\<open>DEEPSEEK_API_KEY\<close> as not set.
  \<^item> \<open>InsufficientBalance\<close>: the account-balance message, thrown at two places.
  \<^item> \<open>UpstreamHTTPError status body\<close>: the message interpolating status and body text.
  \<^item> \<open>UnexpectedUpstreamFormat\<close>: the unexpected-response-format message.
  \<^item> \<open>TypeError\<close>: a property read on \<^verbatim>\<open>null\<close>/\<^verbatim>\<open>undefined\<close>, or a call of
    something that is not a function.
  \<^item> \<open>SyntaxError\<close>: \<^verbatim>\<open>response.json()\<close> rejects, the body is not JSON.
  \<^item> \<open>NetworkError\<close>: \<^verbatim>\<open>fetch\<close> rejects.
  \<^item> \<open>Wrapped e\<close>: the older resolver catches \<open>e\<close> and throws a new error whose
    message is a fixed prefix followed by the message of \<open>e\<close>.
\<close>

datatype error =
    ContextUndefined
  | EnvUndefined "string option"
  | MissingConfiguration
  | InsufficientBalance
  | UpstreamHTTPError nat string
  | UnexpectedUpstreamFormat
  | TypeError
  | SyntaxError
  | NetworkError
  | Wrapped error

text \<open>\<^verbatim>\<open>!!v\<close>: JavaScript's ToBoolean.\<close>

fun truthy :: "jsval \<Rightarrow> bool" where
  "truthy JUndefined = False"
| "truthy JNull = False"
| "truthy (JBool b) = b"
| "truthy (JNum n) = (n \<noteq> 0)"
| "truthy (JStr s) = (s \<noteq> [])"
| "truthy (JArr xs) = True"
| "truthy (JObj kvs) = True"

text \<open>
  \<^verbatim>\<open>v.k\<close> and \<^verbatim>\<open>v[0]\<close>: a property read. Reading from \<^verbatim>\<open>undefined\<close> or
  \<^verbatim>\<open>null\<close> throws; an object yields its own property or \<^verbatim>\<open>undefined\<close>; an array
  and a string have \<^verbatim>\<open>length\<close> and the element at index 0 (the only index the program
  reads); a number and a boolean have none of the properties the program reads
  (\<^verbatim>\<open>id object created model choices length 0 message content finish_reason conversationId\<close>),
  and none of these names is inherited from a prototype.
\<close>

fun get_prop :: "jsval \<Rightarrow> string \<Rightarrow> error + jsval" where
  "get_prop JUndefined k = Inl TypeError"
| "get_prop JNull k = Inl TypeError"
| "get_prop (JObj kvs) k = Inr (case map_of kvs k of None \<Rightarrow> JUndefined | Some v \<Rightarrow> v)"
| "get_prop (JArr xs) k =
     Inr (if k = ''length'' then JNum (of_nat (length xs))
          else if k = ''0'' then (case xs of [] \<Rightarrow> JUndefined | x # _ \<Rightarrow> x)
          else JUndefined)"
| "get_prop (JStr s) k =
     Inr (if k = ''length'' then JNum (of_nat (length s))
          else if k = ''0'' then (case s of [] \<Rightarrow> JUndefined | c # _ \<Rightarrow> JStr [c])
          else JUndefined)"
| "get_prop (JBool b) k = Inr JUndefined"
| "get_prop (JNum n) k = Inr JUndefined"

text \<open>\<^verbatim>\<open>s.includes(p)\<close> on strings: \<open>p\<close> occurs in \<open>s\<close> as a contiguous block.\<close>

fun str_includes :: "string \<Rightarrow> string \<Rightarrow> bool" where
  "str_includes [] p = (p = [])"
| "str_includes (c # cs) p = (prefix p (c # cs) \<or> str_includes cs p)"

text \<open>
  \<^verbatim>\<open>v.includes(p)\<close> on a value read from the upstream body. A string searches for the
  substring; an array searches for an element equal to the string \<open>p\<close>; every other value has
  no callable \<^verbatim>\<open>includes\<close>, and the call throws.
\<close>

fun js_includes :: "jsval \<Rightarrow> string \<Rightarrow> error + bool" where
  "js_includes (JStr s) p = Inr (str_includes s p)"
| "js_includes (JArr xs) p = Inr (JStr p \<in> set xs)"
| "js_includes v p = Inl TypeError"

text \<open>A template literal prints \<^verbatim>\<open>Date.now()\<close>, a count of milliseconds, in decimal.\<close>

definition digit :: "nat \<Rightarrow> char" where
  "digit d = ''0123456789'' ! d"

function dec :: "nat \<Rightarrow> string" where
  "dec n = (if n < 10 then [digit n] else dec (n div 10) @ [digit (n mod 10)])"
  by pat_completeness auto
termination
  by (relation "measure id") auto

declare dec.simps [simp del]

section \<open>Data model\<close>

text \<open>
  A GraphQL argument of the nullable type \<^verbatim>\<open>String\<close>: left out of the call
  (the resolver sees \<^verbatim>\<open>undefined\<close>), given as \<^verbatim>\<open>null\<close>, or a string.
\<close>

datatype gql_string = Omitted | GNull | GStr string

fun gql_truthy :: "gql_string \<Rightarrow> bool" where
  "gql_truthy (GStr s) = (s \<noteq> [])"
| "gql_truthy v = False"

record chat_args =
  arg_message :: string
  arg_conversationId :: gql_string
  arg_systemPrompt :: gql_string

record Message =
  role :: string
  content :: jsval

record ChatResponse =
  messages :: "Message list"
  conversationId :: jsval

text \<open>
  The worker's environment: the bindings by name (text variables and secrets), and the
  resolver's context, which may carry the environment under \<^verbatim>\<open>env\<close> and may carry
  \<^verbatim>\<open>DEEPSEEK_API_KEY\<close> directly.
\<close>

type_synonym env = "(string \<times> string) list"

record resolver_context =
  ctx_env :: "env option"
  ctx_DEEPSEEK_API_KEY :: "string option"

text \<open>\<^verbatim>\<open>!!x\<close> and \<^verbatim>\<open>x || d\<close> for a binding that is a string or \<^verbatim>\<open>undefined\<close>.\<close>

fun present :: "string option \<Rightarrow> bool" where
  "present None = False"
| "present (Some s) = (s \<noteq> [])"

fun or_else :: "string option \<Rightarrow> string \<Rightarrow> string" where
  "or_else None d = d"
| "or_else (Some s) d = (if s = [] then d else s)"

text \<open>The outbound call: what is handed to \<^verbatim>\<open>fetch\<close>, before \<^verbatim>\<open>JSON.stringify\<close>.\<close>

record UpstreamChatRequest =
  model :: string
  req_messages :: "Message list"
  temperature :: rat
  max_tokens :: nat
  stream :: bool

record http_request =
  url :: string
  http_method :: string
  headers :: "(string \<times> string) list"
  body :: UpstreamChatRequest

text \<open>
  The upstream response: its status, what \<^verbatim>\<open>response.text()\<close> yields and what
  \<^verbatim>\<open>response.json()\<close> yields (\<open>None\<close> when the body does not parse).
  \<^verbatim>\<open>response.ok\<close> is a status in the range 200 to 299.
\<close>

record http_response =
  status :: nat
  body_text :: string
  body_json :: "jsval option"

definition ok :: "http_response \<Rightarrow> bool" where
  "ok r = (200 \<le> status r \<and> status r \<le> 299)"

text \<open>The upstream provider: \<open>None\<close> when \<^verbatim>\<open>fetch\<close> rejects.\<close>

type_synonym upstream = "http_request \<Rightarrow> http_response option"

section \<open>The resolver \<^verbatim>\<open>chatWithAI\<close>\<close>

text \<open>
  The resolver's result is the list of outbound calls it made, in order, and either the
  error it threw or the value it returned. Logging has no effect on either and is left out,
  except where evaluating a logged expression can throw.

  The message sequence of the outbound call: the system prompt first when it is truthy,
  then the user message.
\<close>

definition build_messages :: "gql_string \<Rightarrow> string \<Rightarrow> Message list" where
  "build_messages systemPrompt message =
     (case systemPrompt of
        GStr s \<Rightarrow> (if s \<noteq> [] then [\<lparr>role = ''system'', content = JStr s\<rparr>] else [])
      | _ \<Rightarrow> [])
     @ [\<lparr>role = ''user'', content = JStr message\<rparr>]"

definition build_request :: "string \<Rightarrow> string \<Rightarrow> string \<Rightarrow> gql_string \<Rightarrow> string \<Rightarrow> http_request" where
  "build_request API_KEY BASE_URL MODEL systemPrompt message =
     \<lparr>url = BASE_URL @ ''/v1/chat/completions'',
      http_method = ''POST'',
      headers = [(''Content-Type'', ''application/json''),
                 (''Authorization'', ''Bearer '' @ API_KEY)],
      body = \<lparr>model = MODEL,
              req_messages = build_messages systemPrompt message,
              temperature = 7 / 10,
              max_tokens = 2000,
              stream = False\<rparr>\<rparr>"

text \<open>
  The shape check on the parsed body and the read of the reply. The structure log reads
  \<^verbatim>\<open>data.id\<close> first, which throws on a \<^verbatim>\<open>null\<close> body. The result is the first choice
  and its message content.
\<close>

definition read_choice :: "jsval \<Rightarrow> error + (jsval \<times> jsval)" where
  "read_choice data =
     (case get_prop data ''id'' of Inl e \<Rightarrow> Inl e | Inr _ \<Rightarrow>
      case get_prop data ''choices'' of Inl e \<Rightarrow> Inl e | Inr choices \<Rightarrow>
      if \<not> truthy choices then Inl UnexpectedUpstreamFormat else
      case get_prop choices ''length'' of Inl e \<Rightarrow> Inl e | Inr len \<Rightarrow>
      if len = JNum 0 then Inl UnexpectedUpstreamFormat else
      case get_prop choices ''0'' of Inl e \<Rightarrow> Inl e | Inr choice \<Rightarrow>
      case get_prop choice ''message'' of Inl e \<Rightarrow> Inl e | Inr msg \<Rightarrow>
      if \<not> truthy msg then Inl UnexpectedUpstreamFormat else
      case get_prop msg ''content'' of Inl e \<Rightarrow> Inl e | Inr assistantMessage \<Rightarrow>
      Inr (choice, assistantMessage))"

text \<open>
  The balance check on a reply that passed the shape check:
  \<^verbatim>\<open>finish_reason === false && assistantMessage.includes('Insufficient Balance')\<close>.
\<close>

definition balance_check :: "jsval \<Rightarrow> jsval \<Rightarrow> error + unit" where
  "balance_check choice assistantMessage =
     (case get_prop choice ''finish_reason'' of Inl e \<Rightarrow> Inl e | Inr fr \<Rightarrow>
      if fr = JBool False then
        (case js_includes assistantMessage ''Insufficient Balance'' of
           Inl e \<Rightarrow> Inl e
         | Inr b \<Rightarrow> if b then Inl InsufficientBalance else Inr ())
      else Inr ())"

text \<open>\<^verbatim>\<open>conversationId || `session-${Date.now()}`\<close>\<close>

definition new_conversation_id :: "nat \<Rightarrow> gql_string \<Rightarrow> string" where
  "new_conversation_id now cid =
     (case cid of
        GStr s \<Rightarrow> (if s \<noteq> [] then s else ''session-'' @ dec now)
      | _ \<Rightarrow> ''session-'' @ dec now)"

text \<open>What the resolver does with the upstream's answer.\<close>

definition handle_response :: "nat \<Rightarrow> chat_args \<Rightarrow> http_response option \<Rightarrow> error + ChatResponse" where
  "handle_response now args answer =
     (case answer of None \<Rightarrow> Inl NetworkError | Some response \<Rightarrow>
      if \<not> ok response then
        (if str_includes (body_text response) ''Insufficient Balance''
         then Inl InsufficientBalance
         else Inl (UpstreamHTTPError (status response) (body_text response)))
      else
      case body_json response of None \<Rightarrow> Inl SyntaxError | Some data \<Rightarrow>
      case read_choice data of Inl e \<Rightarrow> Inl e | Inr (choice, assistantMessage) \<Rightarrow>
      case balance_check choice assistantMessage of Inl e \<Rightarrow> Inl e | Inr _ \<Rightarrow>
      Inr \<lparr>messages = [\<lparr>role = ''user'', content = JStr (arg_message args)\<rparr>,
                       \<lparr>role = ''assistant'', content = assistantMessage\<rparr>],
           conversationId = JStr (new_conversation_id now (arg_conversationId args))\<rparr>)"

text \<open>
  The part of the resolver that the two DeepSeek revisions share word for word: from the
  test of \<^verbatim>\<open>API_KEY\<close> to the return. \<open>systemPrompt\<close> already has its default.
\<close>

definition call_deepseek ::
  "upstream \<Rightarrow> nat \<Rightarrow> chat_args \<Rightarrow> string option \<Rightarrow> string \<Rightarrow> string \<Rightarrow> http_request list \<times> (error + ChatResponse)" where
  "call_deepseek fetch now args API_KEY BASE_URL MODEL =
     (case API_KEY of
        None \<Rightarrow> ([], Inl MissingConfiguration)
      | Some key \<Rightarrow>
          if key = [] then ([], Inl MissingConfiguration)
          else
            let systemPrompt = (case arg_systemPrompt args of
                                  Omitted \<Rightarrow> GStr ''You are a helpful assistant.''
                                | v \<Rightarrow> v);
                req = build_request key BASE_URL MODEL systemPrompt (arg_message args)
            in ([req], handle_response now args (fetch req)))"

text \<open>
  The resolver that reads its configuration from \<^verbatim>\<open>context.env\<close>.
  \<open>now\<close> is the clock, \<^verbatim>\<open>Date.now()\<close>.
\<close>

definition chatWithAI ::
  "upstream \<Rightarrow> nat \<Rightarrow> chat_args \<Rightarrow> resolver_context option \<Rightarrow> http_request list \<times> (error + ChatResponse)" where
  "chatWithAI fetch now args ctx =
     (case ctx of
        None \<Rightarrow> ([], Inl ContextUndefined)
      | Some c \<Rightarrow>
          (case ctx_env c of
             None \<Rightarrow> ([], Inl (EnvUndefined (ctx_DEEPSEEK_API_KEY c)))
           | Some env \<Rightarrow>
               call_deepseek fetch now args
                 (map_of env ''DEEPSEEK_API_KEY'')
                 (or_else (map_of env ''DEEPSEEK_API_URL'') ''https://api.deepseek.com'')
                 (or_else (map_of env ''DEEPSEEK_MODEL'') ''deepseek-chat'')))"

text \<open>
  The revision that reads the key from \<^verbatim>\<open>context.DEEPSEEK_API_KEY\<close> and the rest from
  \<^verbatim>\<open>context.env\<close>. It does not test the context: destructuring an undefined context and
  reading \<^verbatim>\<open>env.DEEPSEEK_API_URL\<close> from an undefined \<^verbatim>\<open>env\<close> throw a TypeError.
\<close>

definition chatWithAI_part000 ::
  "upstream \<Rightarrow> nat \<Rightarrow> chat_args \<Rightarrow> resolver_context option \<Rightarrow> http_request list \<times> (error + ChatResponse)" where
  "chatWithAI_part000 fetch now args ctx =
     (case ctx of
        None \<Rightarrow> ([], Inl TypeError)
      | Some c \<Rightarrow>
          (case ctx_env c of
             None \<Rightarrow> ([], Inl TypeError)
           | Some env \<Rightarrow>
               call_deepseek fetch now args
                 (ctx_DEEPSEEK_API_KEY c)
                 (or_else (map_of env ''DEEPSEEK_API_URL'') ''https://api.deepseek.com'')
                 (or_else (map_of env ''DEEPSEEK_MODEL'') ''deepseek-chat'')))"

subsection \<open>The resolver of \<^verbatim>\<open>src/index.js\<close>\<close>

text \<open>
  The oldest revision posts to \<^verbatim>\<open>env.AI_API_URL\<close> as it is (possibly undefined), sends
  only the user message and the conversation id, and wraps every error thrown inside its
  \<^verbatim>\<open>try\<close> block. The key is interpolated into the header even when it is undefined.
\<close>

record index_request =
  ix_url :: "string option"
  ix_method :: string
  ix_headers :: "(string \<times> string) list"
  ix_messages :: "Message list"
  ix_conversationId :: "string option"

definition index_body :: "http_response option \<Rightarrow> string \<Rightarrow> error + ChatResponse" where
  "index_body answer message =
     (case answer of None \<Rightarrow> Inl NetworkError | Some response \<Rightarrow>
      if \<not> ok response then Inl (UpstreamHTTPError (status response) (body_text response)) else
      case body_json response of None \<Rightarrow> Inl SyntaxError | Some data \<Rightarrow>
      case get_prop data ''choices'' of Inl e \<Rightarrow> Inl e | Inr choices \<Rightarrow>
      if \<not> truthy choices then Inl UnexpectedUpstreamFormat else
      case get_prop choices ''0'' of Inl e \<Rightarrow> Inl e | Inr choice \<Rightarrow>
      if \<not> truthy choice then Inl UnexpectedUpstreamFormat else
      case get_prop choice ''message'' of Inl e \<Rightarrow> Inl e | Inr msg \<Rightarrow>
      if \<not> truthy msg then Inl UnexpectedUpstreamFormat else
      case get_prop msg ''content'' of Inl e \<Rightarrow> Inl e | Inr c \<Rightarrow>
      case get_prop data ''conversationId'' of Inl e \<Rightarrow> Inl e | Inr cid \<Rightarrow>
      Inr \<lparr>messages = [\<lparr>role = ''user'', content = JStr message\<rparr>,
                       \<lparr>role = ''assistant'', content = c\<rparr>],
           conversationId = (if truthy cid then cid else JNull)\<rparr>)"

definition chatWithAI_index ::
  "(index_request \<Rightarrow> http_response option) \<Rightarrow> chat_args \<Rightarrow> resolver_context option
     \<Rightarrow> index_request list \<times> (error + ChatResponse)" where
  "chatWithAI_index fetch args ctx =
     (case ctx of
        None \<Rightarrow> ([], Inl TypeError)
      | Some c \<Rightarrow>
          (case ctx_env c of
             None \<Rightarrow> ([], Inl TypeError)
           | Some env \<Rightarrow>
               let req = \<lparr>ix_url = map_of env ''AI_API_URL'',
                          ix_method = ''POST'',
                          ix_headers = [(''Content-Type'', ''application/json''),
                                        (''Authorization'', ''Bearer '' @
                                           (case map_of env ''AI_API_KEY'' of
                                              None \<Rightarrow> ''undefined'' | Some k \<Rightarrow> k))],
                          ix_messages = [\<lparr>role = ''user'', content = JStr (arg_message args)\<rparr>],
                          ix_conversationId =
                            (case arg_conversationId args of
                               GStr s \<Rightarrow> (if s \<noteq> [] then Some s else None)
                             | _ \<Rightarrow> None)\<rparr>
               in ([req],
                   case index_body (fetch req) (arg_message args) of
                     Inl e \<Rightarrow> Inl (Wrapped e)
                   | Inr r \<Rightarrow> Inr r)))"

section \<open>The queries \<^verbatim>\<open>ping\<close> and \<^verbatim>\<open>envCheck\<close>\<close>

text \<open>\<^verbatim>\<open>ping\<close> in the \<^verbatim>\<open>context.env\<close> revision, and in \<^verbatim>\<open>src/index.js\<close>.\<close>

definition ping :: string where
  "ping = ''pong''"

definition ping_index :: string where
  "ping_index = ''pong''"

text \<open>\<^verbatim>\<open>ping\<close> in the revision that reads \<^verbatim>\<open>context.DEEPSEEK_API_KEY\<close>.\<close>

definition ping_part000 :: string where
  "ping_part000 = ''hello, xiaopangza test''"

record EnvCheckResult =
  hasApiKey :: bool
  apiUrl :: string
  env_model :: string

definition envCheck :: "resolver_context option \<Rightarrow> EnvCheckResult" where
  "envCheck ctx =
     (case ctx of
        None \<Rightarrow> \<lparr>hasApiKey = False, apiUrl = ''Context is undefined'', env_model = ''error''\<rparr>
      | Some c \<Rightarrow>
          (case ctx_env c of
             None \<Rightarrow> \<lparr>hasApiKey = False, apiUrl = ''Context.env is undefined'', env_model = ''error''\<rparr>
           | Some env \<Rightarrow>
               \<lparr>hasApiKey = present (map_of env ''DEEPSEEK_API_KEY''),
                apiUrl = or_else (map_of env ''DEEPSEEK_API_URL'') ''Not set'',
                env_model = or_else (map_of env ''DEEPSEEK_MODEL'') ''Not set''\<rparr>))"

section \<open>The worker's request handler\<close>

text \<open>
  The handler takes the inbound request and the environment and answers with a response.
  The GraphQL layer (\<^verbatim>\<open>yoga.fetch\<close>) is a parameter: it answers with a response or throws
  an error that may carry a message. Its responses are taken to be ones the
  \<^verbatim>\<open>Response\<close> constructor accepts. The handler's result lists the requests handed to the
  GraphQL layer. \<open>iso_now\<close> is \<^verbatim>\<open>new Date().toISOString()\<close>.
\<close>

datatype body = NoBody | Json jsval | Raw string

record worker_request =
  req_method :: string
  req_url :: string
  req_headers :: "(string \<times> string) list"
  req_body :: body

record worker_response =
  res_status :: nat
  res_statusText :: string
  res_headers :: "(string \<times> string) list"
  res_body :: body

type_synonym yoga = "worker_request \<Rightarrow> env option \<Rightarrow> string option + worker_response"

text \<open>\<^verbatim>\<open>headers.set(name, value)\<close>: header names are compared without regard to case.\<close>

definition lower_char :: "char \<Rightarrow> char" where
  "lower_char c =
     (let n = (of_char c :: nat) in if 65 \<le> n \<and> n \<le> 90 then char_of (n + 32) else c)"

definition headers_set :: "string \<Rightarrow> string \<Rightarrow> (string \<times> string) list \<Rightarrow> (string \<times> string) list" where
  "headers_set name v hs =
     filter (\<lambda>(k, _). map lower_char k \<noteq> map lower_char name) hs @ [(name, v)]"

text \<open>
  The literals of the source outside ASCII, as their UTF-8 bytes: the four characters that
  mean "balance insufficient", searched for in error messages; the notice that replaces
  such a message (a no-entry sign, "API", then "account balance insufficient, please top up
  and try again"); and the older handler's default message, "unknown error".
\<close>

definition balance_marker :: string where
  "balance_marker =
     [CHR 0xE4, CHR 0xBD, CHR 0x99, CHR 0xE9, CHR 0xA2, CHR 0x9D,
      CHR 0xE4, CHR 0xB8, CHR 0x8D, CHR 0xE8, CHR 0xB6, CHR 0xB3]"

definition balance_notice :: string where
  "balance_notice =
     [CHR 0xF0, CHR 0x9F, CHR 0x9A, CHR 0xAB, CHR 0x20, CHR 0x41, CHR 0x50, CHR 0x49, CHR 0x20,
      CHR 0xE8, CHR 0xB4, CHR 0xA6, CHR 0xE6, CHR 0x88, CHR 0xB7,
      CHR 0xE4, CHR 0xBD, CHR 0x99, CHR 0xE9, CHR 0xA2, CHR 0x9D,
      CHR 0xE4, CHR 0xB8, CHR 0x8D, CHR 0xE8, CHR 0xB6, CHR 0xB3,
      CHR 0xEF, CHR 0xBC, CHR 0x8C, CHR 0xE8, CHR 0xAF, CHR 0xB7,
      CHR 0xE5, CHR 0x85, CHR 0x85, CHR 0xE5, CHR 0x80, CHR 0xBC,
      CHR 0xE5, CHR 0x90, CHR 0x8E, CHR 0xE5, CHR 0x86, CHR 0x8D,
      CHR 0xE8, CHR 0xAF, CHR 0x95]"

definition unknown_error :: string where
  "unknown_error =
     [CHR 0xE6, CHR 0x9C, CHR 0xAA, CHR 0xE7, CHR 0x9F, CHR 0xA5,
      CHR 0xE9, CHR 0x94, CHR 0x99, CHR 0xE8, CHR 0xAF, CHR 0xAF]"

text \<open>The answer to a CORS preflight, the same object literal in both handlers.\<close>

definition preflight_response :: worker_response where
  "preflight_response =
     \<lparr>res_status = 204,
      res_statusText = [],
      res_headers =
        [(''Access-Control-Allow-Origin'', ''*''),
         (''Access-Control-Allow-Methods'', ''GET, POST, OPTIONS''),
         (''Access-Control-Allow-Headers'', ''Content-Type, Authorization, Apollo-Require-Preflight''),
         (''Access-Control-Max-Age'', ''86400'')],
      res_body = NoBody\<rparr>"

text \<open>The GraphQL layer's response with the three CORS headers set on a copy of its headers.\<close>

definition with_cors :: "worker_response \<Rightarrow> worker_response" where
  "with_cors response =
     \<lparr>res_status = res_status response,
      res_statusText = res_statusText response,
      res_headers =
        headers_set ''Access-Control-Allow-Headers'' ''Content-Type, Authorization''
          (headers_set ''Access-Control-Allow-Methods'' ''GET, POST, OPTIONS''
             (headers_set ''Access-Control-Allow-Origin'' ''*'' (res_headers response))),
      res_body = res_body response\<rparr>"

definition error_headers :: "(string \<times> string) list" where
  "error_headers =
     [(''Content-Type'', ''application/json''),
      (''Access-Control-Allow-Origin'', ''*''),
      (''Access-Control-Allow-Methods'', ''GET, POST, OPTIONS''),
      (''Access-Control-Allow-Headers'', ''Content-Type, Authorization'')]"

text \<open>
  \<^verbatim>\<open>Object.keys(env)\<close>. The association list holds the bindings in the order they were
  added to the object, a name counting where it first occurs. The names that are array
  indices (a decimal numeral without a leading zero, below \<open>2\<^sup>3\<^sup>2 - 1\<close>) come first, in
  ascending order; the other names follow in the order they were added.
\<close>

definition is_digit :: "char \<Rightarrow> bool" where
  "is_digit c = (c \<in> set ''0123456789'')"

definition index_value :: "string \<Rightarrow> nat" where
  "index_value s = foldl (\<lambda>a c. 10 * a + (of_char c - 48)) 0 s"

definition is_array_index :: "string \<Rightarrow> bool" where
  "is_array_index s =
     (case s of
        [] \<Rightarrow> False
      | c # cs \<Rightarrow> list_all is_digit s \<and> (c \<noteq> CHR ''0'' \<or> cs = [])
                  \<and> index_value s < 4294967295)"

definition object_keys :: "env \<Rightarrow> string list" where
  "object_keys e =
     (let ks = rev (remdups (rev (map fst e)))
      in sort_key index_value (filter is_array_index ks)
         @ filter (\<lambda>k. \<not> is_array_index k) ks)"

text \<open>The body of the \<^verbatim>\<open>/env-check\<close> endpoint, before \<^verbatim>\<open>JSON.stringify\<close>.\<close>

definition env_check_body :: "env option \<Rightarrow> string \<Rightarrow> jsval" where
  "env_check_body env iso_now =
     JObj [(''envAvailable'', JBool (env \<noteq> None)),
           (''envKeys'', JArr (case env of None \<Rightarrow> [] | Some e \<Rightarrow> map JStr (object_keys e))),
           (''hasApiKey'', (case env of None \<Rightarrow> JUndefined
                            | Some e \<Rightarrow> JBool (present (map_of e ''DEEPSEEK_API_KEY'')))),
           (''apiUrl'', JStr (case env of None \<Rightarrow> ''env is undefined''
                              | Some e \<Rightarrow> or_else (map_of e ''DEEPSEEK_API_URL'') ''not set'')),
           (''model'', JStr (case env of None \<Rightarrow> ''env is undefined''
                             | Some e \<Rightarrow> or_else (map_of e ''DEEPSEEK_MODEL'') ''not set'')),
           (''timestamp'', JStr iso_now)]"

text \<open>The \<^verbatim>\<open>catch\<close> block of the handler: a 500 response with an error envelope.\<close>

definition error_response :: "string option \<Rightarrow> string \<Rightarrow> worker_response" where
  "error_response msg iso_now =
     (let errorMessage = or_else msg ''Unknown server error'';
          balance = (str_includes errorMessage balance_marker
                     \<or> str_includes errorMessage ''Insufficient Balance'')
      in \<lparr>res_status = 500,
          res_statusText = [],
          res_headers = error_headers,
          res_body = Json (JObj [(''errors'', JArr [JObj
            [(''message'', JStr (if balance then balance_notice else errorMessage)),
             (''extensions'', JObj
                [(''code'', JStr (if balance then ''INSUFFICIENT_BALANCE'' else ''SERVER_ERROR'')),
                 (''timestamp'', JStr iso_now)])]])])\<rparr>)"

text \<open>The handler of the \<^verbatim>\<open>context.env\<close> revision (\<^verbatim>\<open>export default { fetch }\<close>).\<close>

definition worker_fetch ::
  "yoga \<Rightarrow> string \<Rightarrow> worker_request \<Rightarrow> env option \<Rightarrow> worker_request list \<times> worker_response" where
  "worker_fetch yoga iso_now request env =
     (if req_method request = ''OPTIONS'' then ([], preflight_response)
      else if str_includes (req_url request) ''/env-check'' then
        ([], \<lparr>res_status = 200,
              res_statusText = [],
              res_headers = [(''Content-Type'', ''application/json''),
                             (''Access-Control-Allow-Origin'', ''*'')],
              res_body = Json (env_check_body env iso_now)\<rparr>)
      else
        ([request],
         case yoga request env of
           Inr response \<Rightarrow> with_cors response
         | Inl msg \<Rightarrow> error_response msg iso_now))"

text \<open>The handler of \<^verbatim>\<open>src/index.js\<close>: no diagnostic endpoint, a plainer error envelope.\<close>

definition worker_fetch_index ::
  "yoga \<Rightarrow> worker_request \<Rightarrow> env option \<Rightarrow> worker_request list \<times> worker_response" where
  "worker_fetch_index yoga request env =
     (if req_method request = ''OPTIONS'' then ([], preflight_response)
      else
        ([request],
         case yoga request env of
           Inr response \<Rightarrow> with_cors response
         | Inl msg \<Rightarrow>
             \<lparr>res_status = 500,
              res_statusText = [],
              res_headers = error_headers,
              res_body = Json (JObj [(''errors'', JArr [JObj
                [(''message'', JStr (or_else msg unknown_error))]])])\<rparr>))"

text \<open>
  The path \<^verbatim>\<open>data.choices[0].message.content\<close> of the upstream reply, read on its own
  without any check.
\<close>

definition upstream_content :: "jsval \<Rightarrow> error + jsval" where
  "upstream_content data =
     (case get_prop data ''choices'' of Inl e \<Rightarrow> Inl e | Inr choices \<Rightarrow>
      case get_prop choices ''0'' of Inl e \<Rightarrow> Inl e | Inr choice \<Rightarrow>
      case get_prop choice ''message'' of Inl e \<Rightarrow> Inl e | Inr msg \<Rightarrow>
      get_prop msg ''content'')"

section \<open>Concrete inputs\<close>

text \<open>
  An upstream that answers every call with the same response, a success response with a
  given parsed body, a chat completion with one choice, and a context that carries the key
  both in its environment and directly.
\<close>

definition upstream_replying :: "http_response \<Rightarrow> upstream" where
  "upstream_replying r req = Some r"

definition index_upstream_replying :: "http_response \<Rightarrow> index_request \<Rightarrow> http_response option" where
  "index_upstream_replying r req = Some r"

definition success_response :: "jsval \<Rightarrow> http_response" where
  "success_response data = \<lparr>status = 200, body_text = [], body_json = Some data\<rparr>"

definition completion :: "jsval \<Rightarrow> jsval \<Rightarrow> jsval" where
  "completion c fr =
     JObj [(''id'', JStr ''cmpl-1''),
           (''choices'', JArr [JObj [(''index'', JNum 0),
                                     (''message'', JObj [(''role'', JStr ''assistant''), (''content'', c)]),
                                     (''finish_reason'', fr)]])]"

definition example_env :: env where
  "example_env =
     [(''DEEPSEEK_API_KEY'', ''sk-test''),
      (''AI_API_KEY'', ''sk-test''),
      (''AI_API_URL'', ''https://ai.example/chat'')]"

definition example_ctx :: resolver_context where
  "example_ctx = \<lparr>ctx_env = Some example_env, ctx_DEEPSEEK_API_KEY = Some ''sk-test''\<rparr>"

definition example_args :: chat_args where
  "example_args = \<lparr>arg_message = ''Hello'', arg_conversationId = Omitted, arg_systemPrompt = Omitted\<rparr>"

definition example_request :: http_request where
  "example_request =
     \<lparr>url = ''https://api.deepseek.com/v1/chat/completions'',
      http_method = ''POST'',
      headers = [(''Content-Type'', ''application/json''), (''Authorization'', ''Bearer sk-test'')],
      body = \<lparr>model = ''deepseek-chat'',
              req_messages = [\<lparr>role = ''system'', content = JStr ''You are a helpful assistant.''\<rparr>,
                              \<lparr>role = ''user'', content = JStr ''Hello''\<rparr>],
              temperature = 7 / 10,
              max_tokens = 2000,
              stream = False\<rparr>\<rparr>"

definition example_index_request :: index_request where
  "example_index_request =
     \<lparr>ix_url = Some ''https://ai.example/chat'',
      ix_method = ''POST'',
      ix_headers = [(''Content-Type'', ''application/json''), (''Authorization'', ''Bearer sk-test'')],
      ix_messages = [\<lparr>role = ''user'', content = JStr ''Hello''\<rparr>],
      ix_conversationId = None\<rparr>"

text \<open>The reply "Hi there" and the response the resolvers build from it.\<close>

definition hi_there :: http_response where
  "hi_there = success_response (completion (JStr ''Hi there'') (JStr ''stop''))"

definition hi_there_response :: "jsval \<Rightarrow> ChatResponse" where
  "hi_there_response cid =
     \<lparr>messages = [\<lparr>role = ''user'', content = JStr ''Hello''\<rparr>,
                  \<lparr>role = ''assistant'', content = JStr ''Hi there''\<rparr>],
      conversationId = cid\<rparr>"

text \<open>Further inputs: conversation ids, a context without a key, error responses.\<close>

definition empty_id_args :: chat_args where
  "empty_id_args = example_args\<lparr>arg_conversationId := GStr ''''\<rparr>"

definition given_id_args :: chat_args where
  "given_id_args = example_args\<lparr>arg_conversationId := GStr ''conv-42''\<rparr>"

definition given_id_index_request :: index_request where
  "given_id_index_request = example_index_request\<lparr>ix_conversationId := Some ''conv-42''\<rparr>"

definition keyless_ctx :: resolver_context where
  "keyless_ctx = \<lparr>ctx_env = Some [(''DEEPSEEK_MODEL'', ''deepseek-chat'')], ctx_DEEPSEEK_API_KEY = None\<rparr>"

definition payment_required :: http_response where
  "payment_required = \<lparr>status = 402, body_text = ''error: Insufficient Balance'', body_json = None\<rparr>"

definition unavailable :: http_response where
  "unavailable = \<lparr>status = 503, body_text = ''upstream unavailable'', body_json = None\<rparr>"

text \<open>A success response whose only choice is \<^verbatim>\<open>null\<close>; a preflight request; a GraphQL layer that throws.\<close>

definition null_choice :: http_response where
  "null_choice = success_response (JObj [(''choices'', JArr [JNull])])"

definition options_request :: worker_request where
  "options_request =
     \<lparr>req_method = ''OPTIONS'', req_url = ''https://worker.example/'',
      req_headers = [(''Origin'', ''https://app.example'')], req_body = NoBody\<rparr>"

definition silent_yoga :: yoga where
  "silent_yoga request env = Inl None"

text \<open>A context with another key, and a reply whose content is the balance text.\<close>

definition other_key_env :: env where
  "other_key_env = [(''DEEPSEEK_API_KEY'', ''sk-other-secret'')]"

definition other_key_ctx :: resolver_context where
  "other_key_ctx = \<lparr>ctx_env = Some other_key_env, ctx_DEEPSEEK_API_KEY = None\<rparr>"

definition balance_reply :: "jsval \<Rightarrow> http_response" where
  "balance_reply fr = success_response (completion (JStr ''Insufficient Balance'') fr)"

definition balance_choice :: "jsval \<Rightarrow> jsval" where
  "balance_choice fr =
     JObj [(''index'', JNum 0),
           (''message'', JObj [(''role'', JStr ''assistant''), (''content'', JStr ''Insufficient Balance'')]),
           (''finish_reason'', fr)]"

text \<open>
  Contexts without an environment, with an empty key, and with the key only on the context
  itself; an environment that configures the base URL and the model; arguments with a
  system prompt of the caller's and with a \<^verbatim>\<open>null\<close> one.
\<close>

definition no_env_ctx :: resolver_context where
  "no_env_ctx = \<lparr>ctx_env = None, ctx_DEEPSEEK_API_KEY = None\<rparr>"

definition empty_key_ctx :: resolver_context where
  "empty_key_ctx = \<lparr>ctx_env = Some [(''DEEPSEEK_API_KEY'', [])], ctx_DEEPSEEK_API_KEY = None\<rparr>"

definition context_key_ctx :: resolver_context where
  "context_key_ctx = \<lparr>ctx_env = Some [], ctx_DEEPSEEK_API_KEY = Some ''sk-test''\<rparr>"

definition configured_env :: env where
  "configured_env =
     [(''DEEPSEEK_API_KEY'', ''sk-test''),
      (''DEEPSEEK_API_URL'', ''https://proxy.example''),
      (''DEEPSEEK_MODEL'', ''deepseek-reasoner'')]"

definition configured_ctx :: resolver_context where
  "configured_ctx = \<lparr>ctx_env = Some configured_env, ctx_DEEPSEEK_API_KEY = Some ''sk-test''\<rparr>"

definition prompted_args :: chat_args where
  "prompted_args =
     \<lparr>arg_message = ''Hello'', arg_conversationId = Omitted, arg_systemPrompt = GStr ''Be brief.''\<rparr>"

definition unprompted_args :: chat_args where
  "unprompted_args =
     \<lparr>arg_message = ''Hello'', arg_conversationId = Omitted, arg_systemPrompt = GNull\<rparr>"

definition configured_request :: http_request where
  "configured_request =
     \<lparr>url = ''https://proxy.example/v1/chat/completions'',
      http_method = ''POST'',
      headers = [(''Content-Type'', ''application/json''), (''Authorization'', ''Bearer sk-test'')],
      body = \<lparr>model = ''deepseek-reasoner'',
              req_messages = [\<lparr>role = ''system'', content = JStr ''Be brief.''\<rparr>,
                              \<lparr>role = ''user'', content = JStr ''Hello''\<rparr>],
              temperature = 7 / 10,
              max_tokens = 2000,
              stream = False\<rparr>\<rparr>"

definition unprompted_request :: http_request where
  "unprompted_request =
     \<lparr>url = ''https://proxy.example/v1/chat/completions'',
      http_method = ''POST'',
      headers = [(''Content-Type'', ''application/json''), (''Authorization'', ''Bearer sk-test'')],
      body = \<lparr>model = ''deepseek-reasoner'',
              req_messages = [\<lparr>role = ''user'', content = JStr ''Hello''\<rparr>],
              temperature = 7 / 10,
              max_tokens = 2000,
              stream = False\<rparr>\<rparr>"

section \<open>Properties of the resolver's parts\<close>

lemma str_includes_iff: "str_includes s p \<longleftrightarrow> (\<exists>a b. s = a @ p @ b)"
proof (induction s)
  case Nil
  then show ?case by auto
next
  case (Cons c cs)
  show ?case
  proof
    assume "str_includes (c # cs) p"
    then consider "prefix p (c # cs)" | "str_includes cs p" by auto
    then show "\<exists>a b. c # cs = a @ p @ b"
    proof cases
      case 1
      then obtain b where "c # cs = p @ b" by (auto simp: prefix_def)
      then have "c # cs = [] @ p @ b" by simp
      then show ?thesis by blast
    next
      case 2
      with Cons.IH obtain a b where "cs = a @ p @ b" by auto
      then have "c # cs = (c # a) @ p @ b" by simp
      then show ?thesis by blast
    qed
  next
    assume "\<exists>a b. c # cs = a @ p @ b"
    then obtain a b where ab: "c # cs = a @ p @ b" by auto
    show "str_includes (c # cs) p"
    proof (cases a)
      case Nil
      with ab have "prefix p (c # cs)" by (simp add: prefix_def)
      then show ?thesis by simp
    next
      case (Cons x a')
      with ab have "cs = a' @ p @ b" by simp
      with Cons.IH have "str_includes cs p" by blast
      then show ?thesis by simp
    qed
  qed
qed

lemma dec_nonempty: "dec n \<noteq> []"
  by (subst dec.simps) simp

lemma read_choice_content:
  "read_choice data = Inr (choice, c) \<Longrightarrow> upstream_content data = Inr c"
  by (auto simp: read_choice_def upstream_content_def split: sum.splits if_splits)

lemma handle_response_success:
  assumes "handle_response now args answer = Inr resp"
  shows "\<exists>r data c. answer = Some r \<and> ok r \<and> body_json r = Some data
           \<and> upstream_content data = Inr c
           \<and> messages resp = [\<lparr>role = ''user'', content = JStr (arg_message args)\<rparr>,
                               \<lparr>role = ''assistant'', content = c\<rparr>]
           \<and> conversationId resp = JStr (new_conversation_id now (arg_conversationId args))"
  using assms
  by (auto simp: handle_response_def
      split: option.splits if_splits sum.splits prod.splits dest: read_choice_content)

lemma call_deepseek_success:
  assumes "call_deepseek fetch now args k B M = (calls, Inr resp)"
  shows "\<exists>req. calls = [req] \<and> handle_response now args (fetch req) = Inr resp"
  using assms by (auto simp: call_deepseek_def Let_def split: option.splits if_splits)

lemma call_deepseek_reached:
  assumes "fst (call_deepseek fetch now args k B M) = [req]"
  shows "snd (call_deepseek fetch now args k B M) = handle_response now args (fetch req)"
  using assms by (auto simp: call_deepseek_def Let_def split: option.splits if_splits)

lemma chatWithAI_reached:
  assumes "fst (chatWithAI fetch now args ctx) = [req]"
  shows "snd (chatWithAI fetch now args ctx) = handle_response now args (fetch req)"
  using assms by (auto simp: chatWithAI_def split: option.splits dest: call_deepseek_reached)

lemma chatWithAI_part000_reached:
  assumes "fst (chatWithAI_part000 fetch now args ctx) = [req]"
  shows "snd (chatWithAI_part000 fetch now args ctx) = handle_response now args (fetch req)"
  using assms
  by (auto simp: chatWithAI_part000_def split: option.splits dest: call_deepseek_reached)

lemma chatWithAI_success:
  assumes "chatWithAI fetch now args ctx = (calls, Inr resp)"
  shows "\<exists>req. calls = [req] \<and> handle_response now args (fetch req) = Inr resp"
  using assms by (auto simp: chatWithAI_def split: option.splits dest: call_deepseek_success)

lemma chatWithAI_part000_success:
  assumes "chatWithAI_part000 fetch now args ctx = (calls, Inr resp)"
  shows "\<exists>req. calls = [req] \<and> handle_response now args (fetch req) = Inr resp"
  using assms
  by (auto simp: chatWithAI_part000_def split: option.splits dest: call_deepseek_success)

lemma index_body_success:
  assumes "index_body answer message = Inr resp"
  shows "\<exists>r data c cid. answer = Some r \<and> ok r \<and> body_json r = Some data
           \<and> upstream_content data = Inr c
           \<and> get_prop data ''conversationId'' = Inr cid
           \<and> messages resp = [\<lparr>role = ''user'', content = JStr message\<rparr>,
                               \<lparr>role = ''assistant'', content = c\<rparr>]
           \<and> conversationId resp = (if truthy cid then cid else JNull)"
  using assms
  by (auto simp: index_body_def upstream_content_def split: option.splits if_splits sum.splits)

lemma chatWithAI_index_success:
  assumes "chatWithAI_index fetch args ctx = (calls, Inr resp)"
  shows "\<exists>req. calls = [req] \<and> index_body (fetch req) (arg_message args) = Inr resp"
  using assms by (auto simp: chatWithAI_index_def Let_def split: option.splits sum.splits)

text \<open>The resolvers on the concrete inputs, up to the upstream's answer.\<close>

lemma chatWithAI_example:
  "chatWithAI fetch now example_args (Some example_ctx)
     = ([example_request], handle_response now example_args (fetch example_request))"
  by (simp add: chatWithAI_def call_deepseek_def example_ctx_def example_env_def example_args_def
      example_request_def build_request_def build_messages_def Let_def)

lemma chatWithAI_part000_example:
  "chatWithAI_part000 fetch now example_args (Some example_ctx)
     = ([example_request], handle_response now example_args (fetch example_request))"
  by (simp add: chatWithAI_part000_def call_deepseek_def example_ctx_def example_env_def
      example_args_def example_request_def build_request_def build_messages_def Let_def)

lemma read_choice_completion:
  "read_choice (completion c fr) =
     Inr (JObj [(''index'', JNum 0),
                (''message'', JObj [(''role'', JStr ''assistant''), (''content'', c)]),
                (''finish_reason'', fr)], c)"
  by (simp add: read_choice_def completion_def)

lemma chatWithAI_index_example:
  "chatWithAI_index fetch example_args (Some example_ctx)
     = ([example_index_request],
        case index_body (fetch example_index_request) ''Hello'' of
          Inl e \<Rightarrow> Inl (Wrapped e) | Inr r \<Rightarrow> Inr r)"
  by (simp add: chatWithAI_index_def example_ctx_def example_env_def example_args_def
      example_index_request_def Let_def)

lemma handle_hi_there:
  "handle_response now (example_args\<lparr>arg_conversationId := cid\<rparr>) (Some hi_there)
     = Inr (hi_there_response (JStr (new_conversation_id now cid)))"
  by (simp add: handle_response_def hi_there_def success_response_def ok_def
      read_choice_completion balance_check_def hi_there_response_def example_args_def)

lemma example_args_conversationId:
  "example_args\<lparr>arg_conversationId := Omitted\<rparr> = example_args"
  by (simp add: example_args_def)

lemma new_conversation_id_5: "new_conversation_id 5 Omitted = ''session-5''"
  by (simp add: new_conversation_id_def dec.simps digit_def)

lemma chatWithAI_hi_there:
  "chatWithAI (upstream_replying hi_there) 5 example_args (Some example_ctx)
     = ([example_request], Inr (hi_there_response (JStr ''session-5'')))"
  using handle_hi_there [of 5 Omitted]
  by (simp add: chatWithAI_example upstream_replying_def example_args_conversationId
      new_conversation_id_5)

lemma chatWithAI_index_hi_there:
  "chatWithAI_index (index_upstream_replying hi_there) example_args (Some example_ctx)
     = ([example_index_request], Inr (hi_there_response JNull))"
  by (simp add: chatWithAI_index_example index_upstream_replying_def index_body_def hi_there_def
      success_response_def ok_def completion_def hi_there_response_def)

lemma chatWithAI_args_example:
  "chatWithAI fetch now (example_args\<lparr>arg_conversationId := cid\<rparr>) (Some example_ctx)
     = ([example_request],
        handle_response now (example_args\<lparr>arg_conversationId := cid\<rparr>) (fetch example_request))"
  by (simp add: chatWithAI_def call_deepseek_def example_ctx_def example_env_def example_args_def
      example_request_def build_request_def build_messages_def Let_def)

lemma chatWithAI_part000_args_example:
  "chatWithAI_part000 fetch now (example_args\<lparr>arg_conversationId := cid\<rparr>) (Some example_ctx)
     = ([example_request],
        handle_response now (example_args\<lparr>arg_conversationId := cid\<rparr>) (fetch example_request))"
  by (simp add: chatWithAI_part000_def call_deepseek_def example_ctx_def example_env_def
      example_args_def example_request_def build_request_def build_messages_def Let_def)

lemma chatWithAI_hi_there_cid:
  "chatWithAI (upstream_replying hi_there) now (example_args\<lparr>arg_conversationId := cid\<rparr>)
      (Some example_ctx)
     = ([example_request], Inr (hi_there_response (JStr (new_conversation_id now cid))))"
  by (simp add: chatWithAI_args_example upstream_replying_def handle_hi_there)

lemma chatWithAI_part000_hi_there_cid:
  "chatWithAI_part000 (upstream_replying hi_there) now (example_args\<lparr>arg_conversationId := cid\<rparr>)
      (Some example_ctx)
     = ([example_request], Inr (hi_there_response (JStr (new_conversation_id now cid))))"
  by (simp add: chatWithAI_part000_args_example upstream_replying_def handle_hi_there)

lemma chatWithAI_index_given_id:
  "chatWithAI_index (index_upstream_replying hi_there) given_id_args (Some example_ctx)
     = ([given_id_index_request], Inr (hi_there_response JNull))"
  by (simp add: chatWithAI_index_def example_ctx_def example_env_def example_args_def
      given_id_args_def given_id_index_request_def example_index_request_def Let_def
      index_upstream_replying_def index_body_def hi_there_def
      success_response_def ok_def completion_def hi_there_response_def)

lemma handle_response_not_ok:
  "\<not> ok r \<Longrightarrow> handle_response now args (Some r) =
     (if str_includes (body_text r) ''Insufficient Balance'' then Inl InsufficientBalance
      else Inl (UpstreamHTTPError (status r) (body_text r)))"
  by (simp add: handle_response_def)

lemma payment_required_facts:
  "\<not> ok payment_required" "str_includes (body_text payment_required) ''Insufficient Balance''"
  "status payment_required = 402"
  by (simp_all add: payment_required_def ok_def)

lemma unavailable_facts:
  "\<not> ok unavailable" "\<not> str_includes (body_text unavailable) ''Insufficient Balance''"
  by (simp_all add: unavailable_def ok_def)

text \<open>Where the shape check does throw the format error, and where it does not get that far.\<close>

lemma read_choice_format_errors:
  "get_prop data ''id'' = Inr i \<Longrightarrow> get_prop data ''choices'' = Inr ch \<Longrightarrow> \<not> truthy ch
     \<Longrightarrow> read_choice data = Inl UnexpectedUpstreamFormat"
  "get_prop data ''id'' = Inr i \<Longrightarrow> get_prop data ''choices'' = Inr (JArr [])
     \<Longrightarrow> read_choice data = Inl UnexpectedUpstreamFormat"
  "get_prop data ''id'' = Inr i \<Longrightarrow> get_prop data ''choices'' = Inr (JArr (c # cs))
     \<Longrightarrow> get_prop c ''message'' = Inr m \<Longrightarrow> \<not> truthy m
     \<Longrightarrow> read_choice data = Inl UnexpectedUpstreamFormat"
  by (simp_all add: read_choice_def)

lemma read_choice_null_choice:
  "get_prop data ''id'' = Inr i \<Longrightarrow> get_prop data ''choices'' = Inr (JArr (JNull # cs))
     \<Longrightarrow> read_choice data = Inl TypeError"
  by (simp add: read_choice_def)

text \<open>The balance check after a shape check that passed.\<close>

lemma js_includes_error: "js_includes v p = Inl e \<Longrightarrow> e = TypeError"
  by (cases v) auto

lemma handle_response_balance:
  assumes "ok r" "body_json r = Some data" "read_choice data = Inr (choice, c)"
    "get_prop choice ''finish_reason'' = Inr fr"
  shows "(handle_response now args (Some r) = Inl InsufficientBalance
           \<longleftrightarrow> fr = JBool False \<and> js_includes c ''Insufficient Balance'' = Inr True)
    \<and> (fr \<noteq> JBool False \<longrightarrow>
         handle_response now args (Some r) =
           Inr \<lparr>messages = [\<lparr>role = ''user'', content = JStr (arg_message args)\<rparr>,
                            \<lparr>role = ''assistant'', content = c\<rparr>],
                conversationId = JStr (new_conversation_id now (arg_conversationId args))\<rparr>)"
  using assms
  by (cases "js_includes c ''Insufficient Balance''")
     (auto simp: handle_response_def balance_check_def dest: js_includes_error)

lemma balance_reply_facts:
  "ok (balance_reply fr)"
  "body_json (balance_reply fr) = Some (completion (JStr ''Insufficient Balance'') fr)"
  "read_choice (completion (JStr ''Insufficient Balance'') fr)
     = Inr (balance_choice fr, JStr ''Insufficient Balance'')"
  "get_prop (balance_choice fr) ''finish_reason'' = Inr fr"
  by (simp_all add: balance_reply_def success_response_def ok_def read_choice_completion
      balance_choice_def)

lemma includes_balance_itself:
  "js_includes (JStr ''Insufficient Balance'') ''Insufficient Balance'' = Inr True"
  by simp

text \<open>The resolvers on the further inputs, and the key order on an example.\<close>

lemma handle_hi_there_any:
  "handle_response now args (Some hi_there)
     = Inr \<lparr>messages = [\<lparr>role = ''user'', content = JStr (arg_message args)\<rparr>,
                        \<lparr>role = ''assistant'', content = JStr ''Hi there''\<rparr>],
            conversationId = JStr (new_conversation_id now (arg_conversationId args))\<rparr>"
  by (simp add: handle_response_def hi_there_def success_response_def ok_def
      read_choice_completion balance_check_def)

lemma chatWithAI_part000_context_key:
  "chatWithAI_part000 (upstream_replying hi_there) 5 example_args (Some context_key_ctx)
     = ([example_request], Inr (hi_there_response (JStr ''session-5'')))"
  by (simp add: chatWithAI_part000_def call_deepseek_def context_key_ctx_def example_args_def
      example_request_def build_request_def build_messages_def Let_def upstream_replying_def
      handle_hi_there_any hi_there_response_def new_conversation_id_5)

lemma chatWithAI_configured:
  "chatWithAI (upstream_replying hi_there) 5 prompted_args (Some configured_ctx)
     = ([configured_request], Inr (hi_there_response (JStr ''session-5'')))"
  "chatWithAI_part000 (upstream_replying hi_there) 5 prompted_args (Some configured_ctx)
     = ([configured_request], Inr (hi_there_response (JStr ''session-5'')))"
  "chatWithAI (upstream_replying hi_there) 5 unprompted_args (Some configured_ctx)
     = ([unprompted_request], Inr (hi_there_response (JStr ''session-5'')))"
  "chatWithAI_part000 (upstream_replying hi_there) 5 unprompted_args (Some configured_ctx)
     = ([unprompted_request], Inr (hi_there_response (JStr ''session-5'')))"
  by (simp_all add: chatWithAI_def chatWithAI_part000_def call_deepseek_def configured_ctx_def
      configured_env_def prompted_args_def unprompted_args_def configured_request_def
      unprompted_request_def build_request_def build_messages_def Let_def upstream_replying_def
      handle_hi_there_any hi_there_response_def new_conversation_id_5)

lemma object_keys_order:
  "object_keys [(''b'', ''1''), (''10'', ''2''), (''a'', ''3''), (''2'', ''4''), (''01'', ''5''), (''b'', ''6'')]
     = [''2'', ''10'', ''b'', ''a'', ''01'']"
  by (simp add: object_keys_def is_array_index_def is_digit_def index_value_def)

section \<open>The claims\<close>

text \<open>
  C1. Whenever \<^verbatim>\<open>chatWithAI\<close> succeeds, it made one outbound call, the upstream answered
  it with a body that parses, and the returned \<open>messages\<close> are exactly two entries: the
  caller's message under the role \<^verbatim>\<open>user\<close>, then the upstream's
  \<^verbatim>\<open>choices[0].message.content\<close> under the role \<^verbatim>\<open>assistant\<close>. This holds for every
  message, for the \<^verbatim>\<open>context.env\<close> resolver and for the resolver of \<^verbatim>\<open>src/index.js\<close>.
\<close>

theorem chatWithAI_messages_pair:
  "(chatWithAI fetch now args ctx = (calls, Inr resp) \<longrightarrow>
      (\<exists>req r data c. calls = [req] \<and> fetch req = Some r \<and> body_json r = Some data
         \<and> upstream_content data = Inr c
         \<and> messages resp = [\<lparr>role = ''user'', content = JStr (arg_message args)\<rparr>,
                             \<lparr>role = ''assistant'', content = c\<rparr>]))
   \<and> (chatWithAI_index ifetch args ctx = (icalls, Inr iresp) \<longrightarrow>
      (\<exists>req r data c. icalls = [req] \<and> ifetch req = Some r \<and> body_json r = Some data
         \<and> upstream_content data = Inr c
         \<and> messages iresp = [\<lparr>role = ''user'', content = JStr (arg_message args)\<rparr>,
                              \<lparr>role = ''assistant'', content = c\<rparr>]))"
proof (intro conjI impI)
  assume "chatWithAI fetch now args ctx = (calls, Inr resp)"
  then obtain req where "calls = [req]" "handle_response now args (fetch req) = Inr resp"
    using chatWithAI_success by blast
  then show "\<exists>req r data c. calls = [req] \<and> fetch req = Some r \<and> body_json r = Some data
         \<and> upstream_content data = Inr c
         \<and> messages resp = [\<lparr>role = ''user'', content = JStr (arg_message args)\<rparr>,
                             \<lparr>role = ''assistant'', content = c\<rparr>]"
    using handle_response_success by blast
next
  assume "chatWithAI_index ifetch args ctx = (icalls, Inr iresp)"
  then obtain req where "icalls = [req]" "index_body (ifetch req) (arg_message args) = Inr iresp"
    using chatWithAI_index_success by blast
  then show "\<exists>req r data c. icalls = [req] \<and> ifetch req = Some r \<and> body_json r = Some data
         \<and> upstream_content data = Inr c
         \<and> messages iresp = [\<lparr>role = ''user'', content = JStr (arg_message args)\<rparr>,
                              \<lparr>role = ''assistant'', content = c\<rparr>]"
    using index_body_success by blast
qed

theorem chatWithAI_messages_pair_witness:
  "chatWithAI (upstream_replying hi_there) 5 example_args (Some example_ctx)
     = ([example_request], Inr (hi_there_response (JStr ''session-5'')))
   \<and> messages (hi_there_response (JStr ''session-5''))
     = [\<lparr>role = ''user'', content = JStr ''Hello''\<rparr>, \<lparr>role = ''assistant'', content = JStr ''Hi there''\<rparr>]
   \<and> chatWithAI_index (index_upstream_replying hi_there) example_args (Some example_ctx)
     = ([example_index_request], Inr (hi_there_response JNull))
   \<and> messages (hi_there_response JNull)
     = [\<lparr>role = ''user'', content = JStr ''Hello''\<rparr>, \<lparr>role = ''assistant'', content = JStr ''Hi there''\<rparr>]"
  using chatWithAI_messages_pair [of "upstream_replying hi_there" 5 example_args "Some example_ctx"
      "[example_request]" "hi_there_response (JStr ''session-5'')"
      "index_upstream_replying hi_there" "[example_index_request]" "hi_there_response JNull"]
    chatWithAI_hi_there chatWithAI_index_hi_there
  by (simp add: example_args_def hi_there_response_def)

text \<open>
  C2, as the code has it. On success of the \<^verbatim>\<open>context.env\<close> resolver and of the
  \<^verbatim>\<open>context.DEEPSEEK_API_KEY\<close> revision: a conversation id supplied as a non-empty string
  is returned unchanged; when it is left out, \<^verbatim>\<open>null\<close> or the empty string, the returned id is
  \<^verbatim>\<open>session-\<close> followed by the clock in decimal, which is not empty. The resolver of
  \<^verbatim>\<open>src/index.js\<close> does not look at the caller's id when it builds its result: it returns
  the upstream body's \<^verbatim>\<open>conversationId\<close> when that is truthy and \<^verbatim>\<open>null\<close> otherwise.
\<close>

theorem chatWithAI_conversationId:
  "(chatWithAI fetch now args ctx = (calls, Inr resp)
      \<or> chatWithAI_part000 fetch now args ctx = (calls, Inr resp) \<longrightarrow>
      (\<forall>s. arg_conversationId args = GStr s \<and> s \<noteq> [] \<longrightarrow> conversationId resp = JStr s)
      \<and> (\<not> gql_truthy (arg_conversationId args) \<longrightarrow>
           conversationId resp = JStr (''session-'' @ dec now) \<and> ''session-'' @ dec now \<noteq> []))
   \<and> (chatWithAI_index ifetch args ctx = (icalls, Inr iresp) \<longrightarrow>
      (\<exists>req r data cid. icalls = [req] \<and> ifetch req = Some r \<and> body_json r = Some data
         \<and> get_prop data ''conversationId'' = Inr cid
         \<and> conversationId iresp = (if truthy cid then cid else JNull)))"
proof (intro conjI impI)
  assume "chatWithAI fetch now args ctx = (calls, Inr resp)
      \<or> chatWithAI_part000 fetch now args ctx = (calls, Inr resp)"
  then obtain req where "handle_response now args (fetch req) = Inr resp"
    using chatWithAI_success chatWithAI_part000_success by blast
  then have c: "conversationId resp = JStr (new_conversation_id now (arg_conversationId args))"
    using handle_response_success by blast
  show "\<forall>s. arg_conversationId args = GStr s \<and> s \<noteq> [] \<longrightarrow> conversationId resp = JStr s"
    using c by (simp add: new_conversation_id_def)
  assume "\<not> gql_truthy (arg_conversationId args)"
  then show "conversationId resp = JStr (''session-'' @ dec now)"
    using c by (cases "arg_conversationId args") (simp_all add: new_conversation_id_def)
next
  assume "chatWithAI fetch now args ctx = (calls, Inr resp)
      \<or> chatWithAI_part000 fetch now args ctx = (calls, Inr resp)"
  show "''session-'' @ dec now \<noteq> []" by simp
next
  assume "chatWithAI_index ifetch args ctx = (icalls, Inr iresp)"
  then obtain req where "icalls = [req]" "index_body (ifetch req) (arg_message args) = Inr iresp"
    using chatWithAI_index_success by blast
  then show "\<exists>req r data cid. icalls = [req] \<and> ifetch req = Some r \<and> body_json r = Some data
         \<and> get_prop data ''conversationId'' = Inr cid
         \<and> conversationId iresp = (if truthy cid then cid else JNull)"
    using index_body_success by blast
qed

theorem chatWithAI_conversationId_witness:
  "chatWithAI (upstream_replying hi_there) 5 given_id_args (Some example_ctx)
     = ([example_request], Inr (hi_there_response (JStr ''conv-42'')))
   \<and> conversationId (hi_there_response (JStr ''conv-42'')) = JStr ''conv-42''
   \<and> chatWithAI (upstream_replying hi_there) 5 example_args (Some example_ctx)
     = ([example_request], Inr (hi_there_response (JStr ''session-5'')))
   \<and> conversationId (hi_there_response (JStr ''session-5'')) = JStr ''session-5''
   \<and> chatWithAI_index (index_upstream_replying hi_there) given_id_args (Some example_ctx)
     = ([given_id_index_request], Inr (hi_there_response JNull))
   \<and> conversationId (hi_there_response JNull) = JNull"
proof -
  have g: "chatWithAI (upstream_replying hi_there) 5 given_id_args (Some example_ctx)
     = ([example_request], Inr (hi_there_response (JStr ''conv-42'')))"
    using chatWithAI_hi_there_cid [of 5 "GStr ''conv-42''"]
    by (simp add: given_id_args_def new_conversation_id_def)
  have a: "arg_conversationId given_id_args = GStr ''conv-42''"
    by (simp add: given_id_args_def example_args_def)
  have o: "\<not> gql_truthy (arg_conversationId example_args)"
    by (simp add: example_args_def)
  have d: "dec 5 = ''5''" by (simp add: dec.simps digit_def)
  from chatWithAI_conversationId [of "upstream_replying hi_there" 5 given_id_args
      "Some example_ctx" "[example_request]" "hi_there_response (JStr ''conv-42'')"
      "index_upstream_replying hi_there" "[given_id_index_request]" "hi_there_response JNull"]
    g a chatWithAI_index_given_id
  have 1: "conversationId (hi_there_response (JStr ''conv-42'')) = JStr ''conv-42''"
    by simp
  from chatWithAI_conversationId [of "upstream_replying hi_there" 5 example_args
      "Some example_ctx" "[example_request]" "hi_there_response (JStr ''session-5'')"]
    chatWithAI_hi_there o d
  have 2: "conversationId (hi_there_response (JStr ''session-5'')) = JStr ''session-5''"
    by simp
  show ?thesis
    using g 1 2 chatWithAI_hi_there chatWithAI_index_given_id
    by (simp add: hi_there_response_def)
qed

text \<open>
  The claim as first stated fails for a supplied conversation id that is the empty string,
  which is replaced by a generated one, and in \<^verbatim>\<open>src/index.js\<close> for every supplied id.
\<close>

theorem conversationId_not_echoed_counterexample:
  "arg_conversationId empty_id_args = GStr ''''
   \<and> chatWithAI (upstream_replying hi_there) 5 empty_id_args (Some example_ctx)
       = ([example_request], Inr (hi_there_response (JStr ''session-5'')))
   \<and> conversationId (hi_there_response (JStr ''session-5'')) \<noteq> JStr ''''
   \<and> arg_conversationId given_id_args = GStr ''conv-42''
   \<and> chatWithAI_index (index_upstream_replying hi_there) given_id_args (Some example_ctx)
       = ([given_id_index_request], Inr (hi_there_response JNull))
   \<and> conversationId (hi_there_response JNull) \<noteq> JStr ''conv-42''"
  using chatWithAI_hi_there_cid [of 5 "GStr ''''"]
  by (simp add: empty_id_args_def chatWithAI_index_given_id hi_there_response_def
      new_conversation_id_def dec.simps digit_def)
    (simp add: example_args_def given_id_args_def)

text \<open>
  C3, as the code has it. In the resolver that reads \<^verbatim>\<open>context.env\<close>: when the environment
  exists and its \<^verbatim>\<open>DEEPSEEK_API_KEY\<close> is undefined or empty, the resolver throws the
  missing-configuration error; when the context has no environment, and so no key, it
  throws the environment-undefined error of its guard instead; when there is no context,
  the context-undefined error. In each case the list of outbound calls is empty, whatever
  the upstream would have answered.
\<close>

theorem chatWithAI_key_absent:
  "chatWithAI fetch now args None = ([], Inl ContextUndefined)
   \<and> (ctx_env c = None \<longrightarrow>
        chatWithAI fetch now args (Some c) = ([], Inl (EnvUndefined (ctx_DEEPSEEK_API_KEY c))))
   \<and> (ctx_env c = Some env
        \<and> (map_of env ''DEEPSEEK_API_KEY'' = None \<or> map_of env ''DEEPSEEK_API_KEY'' = Some [])
      \<longrightarrow> chatWithAI fetch now args (Some c) = ([], Inl MissingConfiguration))"
  by (auto simp: chatWithAI_def call_deepseek_def)

theorem chatWithAI_key_absent_witness:
  "ctx_env no_env_ctx = None
   \<and> chatWithAI (upstream_replying hi_there) 5 example_args (Some no_env_ctx)
       = ([], Inl (EnvUndefined None))
   \<and> ctx_env keyless_ctx = Some [(''DEEPSEEK_MODEL'', ''deepseek-chat'')]
   \<and> map_of [(''DEEPSEEK_MODEL'', ''deepseek-chat'')] ''DEEPSEEK_API_KEY'' = None
   \<and> chatWithAI (upstream_replying hi_there) 5 example_args (Some keyless_ctx)
       = ([], Inl MissingConfiguration)
   \<and> ctx_env empty_key_ctx = Some [(''DEEPSEEK_API_KEY'', [])]
   \<and> map_of [(''DEEPSEEK_API_KEY'', [])] ''DEEPSEEK_API_KEY'' = Some []
   \<and> chatWithAI (upstream_replying hi_there) 5 example_args (Some empty_key_ctx)
       = ([], Inl MissingConfiguration)"
  using chatWithAI_key_absent [of "upstream_replying hi_there" 5 example_args no_env_ctx]
    chatWithAI_key_absent [of "upstream_replying hi_there" 5 example_args keyless_ctx
      "[(''DEEPSEEK_MODEL'', ''deepseek-chat'')]"]
    chatWithAI_key_absent [of "upstream_replying hi_there" 5 example_args empty_key_ctx
      "[(''DEEPSEEK_API_KEY'', [])]"]
  by (simp add: no_env_ctx_def keyless_ctx_def empty_key_ctx_def)

text \<open>
  The claim as first stated fails where the key is absent because the context has no
  environment: the \<^verbatim>\<open>context.env\<close> resolver throws its environment-undefined error, and the
  \<^verbatim>\<open>context.DEEPSEEK_API_KEY\<close> revision a TypeError. That revision also reads the key from
  the context and not from the environment, so with an environment that has no key and a
  key on the context it makes the outbound call and succeeds.
\<close>

theorem missing_key_other_outcome_counterexample:
  "ctx_env no_env_ctx = None
   \<and> chatWithAI (upstream_replying hi_there) 5 example_args (Some no_env_ctx)
       = ([], Inl (EnvUndefined None))
   \<and> EnvUndefined None \<noteq> MissingConfiguration
   \<and> chatWithAI_part000 (upstream_replying hi_there) 5 example_args (Some no_env_ctx)
       = ([], Inl TypeError)
   \<and> TypeError \<noteq> MissingConfiguration
   \<and> ctx_env context_key_ctx = Some []
   \<and> map_of ([] :: env) ''DEEPSEEK_API_KEY'' = None
   \<and> chatWithAI_part000 (upstream_replying hi_there) 5 example_args (Some context_key_ctx)
       = ([example_request], Inr (hi_there_response (JStr ''session-5'')))"
  by (simp add: chatWithAI_part000_context_key)
    (simp add: chatWithAI_def chatWithAI_part000_def no_env_ctx_def context_key_ctx_def)

text \<open>
  C4. When the outbound call is made and the upstream answers it with a status outside
  200 to 299, the resolver throws the insufficient-balance error if the body text contains
  \<^verbatim>\<open>Insufficient Balance\<close>, and otherwise the upstream error carrying the status and the
  body text. The witness has status 402 for the first case and 503 for the second.
\<close>

theorem chatWithAI_upstream_error:
  "(fst (chatWithAI fetch now args ctx) = [req] \<and> fetch req = Some r \<and> \<not> ok r \<longrightarrow>
      snd (chatWithAI fetch now args ctx) =
        (if str_includes (body_text r) ''Insufficient Balance'' then Inl InsufficientBalance
         else Inl (UpstreamHTTPError (status r) (body_text r))))
   \<and> (fst (chatWithAI_part000 fetch now args ctx) = [req] \<and> fetch req = Some r \<and> \<not> ok r \<longrightarrow>
      snd (chatWithAI_part000 fetch now args ctx) =
        (if str_includes (body_text r) ''Insufficient Balance'' then Inl InsufficientBalance
         else Inl (UpstreamHTTPError (status r) (body_text r))))"
  by (simp add: chatWithAI_reached chatWithAI_part000_reached handle_response_not_ok)

theorem chatWithAI_upstream_error_witness:
  "fst (chatWithAI (upstream_replying payment_required) 5 example_args (Some example_ctx)) = [example_request]
   \<and> upstream_replying payment_required example_request = Some payment_required
   \<and> \<not> ok payment_required \<and> status payment_required = 402
   \<and> snd (chatWithAI (upstream_replying payment_required) 5 example_args (Some example_ctx))
       = Inl InsufficientBalance
   \<and> snd (chatWithAI_part000 (upstream_replying payment_required) 5 example_args (Some example_ctx))
       = Inl InsufficientBalance
   \<and> fst (chatWithAI (upstream_replying unavailable) 5 example_args (Some example_ctx)) = [example_request]
   \<and> upstream_replying unavailable example_request = Some unavailable
   \<and> \<not> ok unavailable
   \<and> snd (chatWithAI (upstream_replying unavailable) 5 example_args (Some example_ctx))
       = Inl (UpstreamHTTPError 503 ''upstream unavailable'')"
proof -
  have p: "fst (chatWithAI (upstream_replying payment_required) 5 example_args (Some example_ctx)) = [example_request]"
    and p0: "fst (chatWithAI_part000 (upstream_replying payment_required) 5 example_args (Some example_ctx)) = [example_request]"
    and u: "fst (chatWithAI (upstream_replying unavailable) 5 example_args (Some example_ctx)) = [example_request]"
    by (simp_all add: chatWithAI_example chatWithAI_part000_example)
  have f: "upstream_replying payment_required example_request = Some payment_required"
    "upstream_replying unavailable example_request = Some unavailable"
    by (simp_all add: upstream_replying_def)
  from chatWithAI_upstream_error [of "upstream_replying payment_required" 5 example_args
      "Some example_ctx" example_request payment_required] p p0 f payment_required_facts
  have 1: "snd (chatWithAI (upstream_replying payment_required) 5 example_args (Some example_ctx))
       = Inl InsufficientBalance"
    "snd (chatWithAI_part000 (upstream_replying payment_required) 5 example_args (Some example_ctx))
       = Inl InsufficientBalance"
    by simp_all
  from chatWithAI_upstream_error [of "upstream_replying unavailable" 5 example_args
      "Some example_ctx" example_request unavailable] u f unavailable_facts
  have 2: "snd (chatWithAI (upstream_replying unavailable) 5 example_args (Some example_ctx))
       = Inl (UpstreamHTTPError 503 ''upstream unavailable'')"
    by (simp add: unavailable_def)
  show ?thesis
    using p u f 1 2 payment_required_facts unavailable_facts by simp
qed

text \<open>
  C5 states that every success response without a non-empty \<^verbatim>\<open>choices\<close> sequence whose
  first element has a \<^verbatim>\<open>message\<close> makes the resolver throw the unexpected-format error.
  On the body \<^verbatim>\<open>{"choices":[null]}\<close> the two DeepSeek resolvers throw a TypeError instead:
  the check reads \<^verbatim>\<open>data.choices[0].message\<close> without testing \<^verbatim>\<open>data.choices[0]\<close>.
  The resolver of \<^verbatim>\<open>src/index.js\<close> tests it, and throws the format error (wrapped, as all
  its errors are) on the same body.
\<close>

theorem chatWithAI_null_choice:
  "chatWithAI (upstream_replying null_choice) 5 example_args (Some example_ctx)
     = ([example_request], Inl TypeError)
   \<and> chatWithAI_part000 (upstream_replying null_choice) 5 example_args (Some example_ctx)
     = ([example_request], Inl TypeError)
   \<and> TypeError \<noteq> UnexpectedUpstreamFormat
   \<and> chatWithAI_index (index_upstream_replying null_choice) example_args (Some example_ctx)
     = ([example_index_request], Inl (Wrapped UnexpectedUpstreamFormat))"
  by (simp add: chatWithAI_example chatWithAI_part000_example chatWithAI_index_example
      upstream_replying_def index_upstream_replying_def handle_response_def index_body_def
      null_choice_def success_response_def ok_def read_choice_def)

text \<open>
  C6. Whenever a resolver makes an outbound call, it makes exactly one: a POST to the base
  URL followed by \<^verbatim>\<open>/v1/chat/completions\<close>, with the bearer key, and a body with the model,
  temperature 0.7, 2000 tokens at most, no streaming, and the messages: the system prompt
  if it is a non-empty string (the default prompt when the argument is left out), then the
  user message. The base URL is the binding \<^verbatim>\<open>DEEPSEEK_API_URL\<close> when that is set and not
  empty, and \<^verbatim>\<open>https://api.deepseek.com\<close> otherwise; the model is the binding
  \<^verbatim>\<open>DEEPSEEK_MODEL\<close> when that is set and not empty, and \<^verbatim>\<open>deepseek-chat\<close> otherwise.
  The witness has both bindings set and a system prompt of the caller's, then a
  \<^verbatim>\<open>null\<close> prompt, then neither binding and the default prompt.
\<close>

theorem chatWithAI_outbound_call:
  "(chatWithAI fetch now args ctx = (calls, res) \<and> calls \<noteq> [] \<longrightarrow>
      (\<exists>c env key. ctx = Some c \<and> ctx_env c = Some env
         \<and> map_of env ''DEEPSEEK_API_KEY'' = Some key \<and> key \<noteq> []
         \<and> calls =
            [\<lparr>url = (case map_of env ''DEEPSEEK_API_URL'' of
                        None \<Rightarrow> ''https://api.deepseek.com''
                      | Some u \<Rightarrow> if u = [] then ''https://api.deepseek.com'' else u)
                     @ ''/v1/chat/completions'',
              http_method = ''POST'',
              headers = [(''Content-Type'', ''application/json''),
                         (''Authorization'', ''Bearer '' @ key)],
              body = \<lparr>model = (case map_of env ''DEEPSEEK_MODEL'' of
                                 None \<Rightarrow> ''deepseek-chat''
                               | Some m \<Rightarrow> if m = [] then ''deepseek-chat'' else m),
                      req_messages =
                        (case arg_systemPrompt args of
                           Omitted \<Rightarrow> [\<lparr>role = ''system'', content = JStr ''You are a helpful assistant.''\<rparr>]
                         | GNull \<Rightarrow> []
                         | GStr s \<Rightarrow> if s = [] then [] else [\<lparr>role = ''system'', content = JStr s\<rparr>])
                        @ [\<lparr>role = ''user'', content = JStr (arg_message args)\<rparr>],
                      temperature = 7 / 10,
                      max_tokens = 2000,
                      stream = False\<rparr>\<rparr>]))
   \<and> (chatWithAI_part000 fetch now args ctx = (calls, res) \<and> calls \<noteq> [] \<longrightarrow>
      (\<exists>c env key. ctx = Some c \<and> ctx_env c = Some env
         \<and> ctx_DEEPSEEK_API_KEY c = Some key \<and> key \<noteq> []
         \<and> calls =
            [\<lparr>url = (case map_of env ''DEEPSEEK_API_URL'' of
                        None \<Rightarrow> ''https://api.deepseek.com''
                      | Some u \<Rightarrow> if u = [] then ''https://api.deepseek.com'' else u)
                     @ ''/v1/chat/completions'',
              http_method = ''POST'',
              headers = [(''Content-Type'', ''application/json''),
                         (''Authorization'', ''Bearer '' @ key)],
              body = \<lparr>model = (case map_of env ''DEEPSEEK_MODEL'' of
                                 None \<Rightarrow> ''deepseek-chat''
                               | Some m \<Rightarrow> if m = [] then ''deepseek-chat'' else m),
                      req_messages =
                        (case arg_systemPrompt args of
                           Omitted \<Rightarrow> [\<lparr>role = ''system'', content = JStr ''You are a helpful assistant.''\<rparr>]
                         | GNull \<Rightarrow> []
                         | GStr s \<Rightarrow> if s = [] then [] else [\<lparr>role = ''system'', content = JStr s\<rparr>])
                        @ [\<lparr>role = ''user'', content = JStr (arg_message args)\<rparr>],
                      temperature = 7 / 10,
                      max_tokens = 2000,
                      stream = False\<rparr>\<rparr>]))"
  by (auto simp: chatWithAI_def chatWithAI_part000_def call_deepseek_def build_request_def
      build_messages_def Let_def split: option.splits if_splits gql_string.splits)

theorem chatWithAI_outbound_call_witness:
  "chatWithAI (upstream_replying hi_there) 5 prompted_args (Some configured_ctx)
     = ([configured_request], Inr (hi_there_response (JStr ''session-5'')))
   \<and> chatWithAI_part000 (upstream_replying hi_there) 5 prompted_args (Some configured_ctx)
     = ([configured_request], Inr (hi_there_response (JStr ''session-5'')))
   \<and> [configured_request] \<noteq> []
   \<and> map_of configured_env ''DEEPSEEK_API_URL'' = Some ''https://proxy.example''
   \<and> map_of configured_env ''DEEPSEEK_MODEL'' = Some ''deepseek-reasoner''
   \<and> url configured_request = ''https://proxy.example/v1/chat/completions''
   \<and> model (body configured_request) = ''deepseek-reasoner''
   \<and> req_messages (body configured_request)
       = [\<lparr>role = ''system'', content = JStr ''Be brief.''\<rparr>,
          \<lparr>role = ''user'', content = JStr ''Hello''\<rparr>]
   \<and> chatWithAI (upstream_replying hi_there) 5 unprompted_args (Some configured_ctx)
     = ([unprompted_request], Inr (hi_there_response (JStr ''session-5'')))
   \<and> req_messages (body unprompted_request) = [\<lparr>role = ''user'', content = JStr ''Hello''\<rparr>]
   \<and> chatWithAI (upstream_replying hi_there) 5 example_args (Some example_ctx)
     = ([example_request], Inr (hi_there_response (JStr ''session-5'')))
   \<and> url example_request = ''https://api.deepseek.com/v1/chat/completions''
   \<and> model (body example_request) = ''deepseek-chat''
   \<and> http_method example_request = ''POST''
   \<and> stream (body example_request) = False"
  using chatWithAI_outbound_call [of "upstream_replying hi_there" 5 prompted_args
      "Some configured_ctx" "[configured_request]" "Inr (hi_there_response (JStr ''session-5''))"]
    chatWithAI_outbound_call [of "upstream_replying hi_there" 5 unprompted_args
      "Some configured_ctx" "[unprompted_request]" "Inr (hi_there_response (JStr ''session-5''))"]
    chatWithAI_outbound_call [of "upstream_replying hi_there" 5 example_args
      "Some example_ctx" "[example_request]" "Inr (hi_there_response (JStr ''session-5''))"]
    chatWithAI_configured chatWithAI_hi_there
  by (simp add: example_request_def configured_request_def unprompted_request_def
      configured_env_def)

text \<open>
  C7. A request with the method \<^verbatim>\<open>OPTIONS\<close> is answered with status 204 and the header
  \<^verbatim>\<open>Access-Control-Allow-Origin: *\<close>, and nothing is handed to the GraphQL layer, in the
  handler of the \<^verbatim>\<open>context.env\<close> revision and in the handler of \<^verbatim>\<open>src/index.js\<close>.
\<close>

theorem options_preflight:
  "req_method request = ''OPTIONS'' \<longrightarrow>
     fst (worker_fetch yoga iso_now request env) = []
     \<and> res_status (snd (worker_fetch yoga iso_now request env)) = 204
     \<and> map_of (res_headers (snd (worker_fetch yoga iso_now request env)))
          ''Access-Control-Allow-Origin'' = Some ''*''
     \<and> fst (worker_fetch_index yoga request env) = []
     \<and> res_status (snd (worker_fetch_index yoga request env)) = 204
     \<and> map_of (res_headers (snd (worker_fetch_index yoga request env)))
          ''Access-Control-Allow-Origin'' = Some ''*''"
  by (simp add: worker_fetch_def worker_fetch_index_def preflight_response_def)

theorem options_preflight_witness:
  "req_method options_request = ''OPTIONS''
   \<and> worker_fetch silent_yoga ''2026-01-01T00:00:00.000Z'' options_request None
       = ([], preflight_response)
   \<and> res_status preflight_response = 204
   \<and> map_of (res_headers preflight_response) ''Access-Control-Allow-Origin'' = Some ''*''
   \<and> worker_fetch_index silent_yoga options_request None = ([], preflight_response)"
  using options_preflight [of options_request silent_yoga "''2026-01-01T00:00:00.000Z''" None]
  by (simp add: options_request_def worker_fetch_def worker_fetch_index_def preflight_response_def)

text \<open>
  C8 states that \<^verbatim>\<open>ping\<close> returns \<^verbatim>\<open>pong\<close>. It does in the \<^verbatim>\<open>context.env\<close> revision and
  in \<^verbatim>\<open>src/index.js\<close>; the \<^verbatim>\<open>context.DEEPSEEK_API_KEY\<close> revision returns another string.
\<close>

theorem ping_part000_not_pong:
  "ping = ''pong'' \<and> ping_index = ''pong''
   \<and> ping_part000 = ''hello, xiaopangza test'' \<and> ping_part000 \<noteq> ''pong''"
  by (simp add: ping_def ping_index_def ping_part000_def)

text \<open>
  C9. The result of \<^verbatim>\<open>envCheck\<close> is the same for two contexts whose environments agree on
  whether the key is present (\<^verbatim>\<open>!!env.DEEPSEEK_API_KEY\<close>: defined and not empty) and on the
  URL and model bindings, whatever the two key values are; it is the same for two contexts
  without environment. Its two text fields are the URL and model bindings or the literal
  \<^verbatim>\<open>Not set\<close>, so the key's value occurs in them only if it occurs in those.
\<close>

theorem envCheck_key_independent:
  "(ctx_env c1 = Some e1 \<and> ctx_env c2 = Some e2
      \<and> (present (map_of e1 ''DEEPSEEK_API_KEY'') \<longleftrightarrow> present (map_of e2 ''DEEPSEEK_API_KEY''))
      \<and> map_of e1 ''DEEPSEEK_API_URL'' = map_of e2 ''DEEPSEEK_API_URL''
      \<and> map_of e1 ''DEEPSEEK_MODEL'' = map_of e2 ''DEEPSEEK_MODEL''
      \<longrightarrow> envCheck (Some c1) = envCheck (Some c2))
   \<and> (ctx_env c1 = None \<and> ctx_env c2 = None \<longrightarrow> envCheck (Some c1) = envCheck (Some c2))
   \<and> (ctx_env c1 = Some e1 \<longrightarrow>
        apiUrl (envCheck (Some c1)) = or_else (map_of e1 ''DEEPSEEK_API_URL'') ''Not set''
        \<and> env_model (envCheck (Some c1)) = or_else (map_of e1 ''DEEPSEEK_MODEL'') ''Not set'')
   \<and> (ctx_env c1 = Some e1 \<and> map_of e1 ''DEEPSEEK_API_KEY'' = Some k
        \<and> \<not> str_includes (or_else (map_of e1 ''DEEPSEEK_API_URL'') ''Not set'') k
        \<and> \<not> str_includes (or_else (map_of e1 ''DEEPSEEK_MODEL'') ''Not set'') k
      \<longrightarrow> \<not> str_includes (apiUrl (envCheck (Some c1))) k
          \<and> \<not> str_includes (env_model (envCheck (Some c1))) k)"
  by (simp add: envCheck_def)

theorem envCheck_key_independent_witness:
  "ctx_env example_ctx = Some example_env
   \<and> map_of example_env ''DEEPSEEK_API_KEY'' = Some ''sk-test''
   \<and> ctx_env other_key_ctx = Some other_key_env
   \<and> map_of other_key_env ''DEEPSEEK_API_KEY'' = Some ''sk-other-secret''
   \<and> envCheck (Some example_ctx) = envCheck (Some other_key_ctx)
   \<and> envCheck (Some example_ctx) = \<lparr>hasApiKey = True, apiUrl = ''Not set'', env_model = ''Not set''\<rparr>
   \<and> \<not> str_includes (apiUrl (envCheck (Some example_ctx))) ''sk-test''
   \<and> \<not> str_includes (env_model (envCheck (Some example_ctx))) ''sk-test''"
proof -
  have e: "ctx_env example_ctx = Some example_env"
    "map_of example_env ''DEEPSEEK_API_KEY'' = Some ''sk-test''"
    "map_of example_env ''DEEPSEEK_API_URL'' = None"
    "map_of example_env ''DEEPSEEK_MODEL'' = None"
    by (simp_all add: example_ctx_def example_env_def)
  have o: "ctx_env other_key_ctx = Some other_key_env"
    "map_of other_key_env ''DEEPSEEK_API_KEY'' = Some ''sk-other-secret''"
    "map_of other_key_env ''DEEPSEEK_API_URL'' = None"
    "map_of other_key_env ''DEEPSEEK_MODEL'' = None"
    by (simp_all add: other_key_ctx_def other_key_env_def)
  have n: "\<not> str_includes ''Not set'' ''sk-test''" by simp
  note t = envCheck_key_independent [of example_ctx example_env other_key_ctx other_key_env
      "''sk-test''"]
  from t e o have 1: "envCheck (Some example_ctx) = envCheck (Some other_key_ctx)"
    by simp
  from t e n have 2: "\<not> str_includes (apiUrl (envCheck (Some example_ctx))) ''sk-test''"
    "\<not> str_includes (env_model (envCheck (Some example_ctx))) ''sk-test''"
    by simp_all
  have 3: "envCheck (Some example_ctx)
      = \<lparr>hasApiKey = True, apiUrl = ''Not set'', env_model = ''Not set''\<rparr>"
    by (simp add: envCheck_def example_ctx_def example_env_def)
  from e(1,2) o(1,2) 1 2 3 show ?thesis by blast
qed

text \<open>
  C10. After a success response whose body passed the shape check, with first choice
  \<open>choice\<close> and content \<open>c\<close>: the resolver throws the insufficient-balance error exactly
  when \<^verbatim>\<open>finish_reason\<close> is the boolean \<^verbatim>\<open>false\<close> and \<^verbatim>\<open>c.includes('Insufficient Balance')\<close>
  is true; for every other \<^verbatim>\<open>finish_reason\<close>, a string included, it returns \<open>c\<close> unchanged as
  the assistant message.
\<close>

theorem chatWithAI_balance_reply:
  "(fst (chatWithAI fetch now args ctx) = [req] \<and> fetch req = Some r \<and> ok r
      \<and> body_json r = Some data \<and> read_choice data = Inr (choice, c)
      \<and> get_prop choice ''finish_reason'' = Inr fr \<longrightarrow>
      (snd (chatWithAI fetch now args ctx) = Inl InsufficientBalance
         \<longleftrightarrow> fr = JBool False \<and> js_includes c ''Insufficient Balance'' = Inr True)
      \<and> (fr \<noteq> JBool False \<longrightarrow>
           snd (chatWithAI fetch now args ctx) =
             Inr \<lparr>messages = [\<lparr>role = ''user'', content = JStr (arg_message args)\<rparr>,
                              \<lparr>role = ''assistant'', content = c\<rparr>],
                  conversationId = JStr (new_conversation_id now (arg_conversationId args))\<rparr>))
   \<and> (fst (chatWithAI_part000 fetch now args ctx) = [req] \<and> fetch req = Some r \<and> ok r
      \<and> body_json r = Some data \<and> read_choice data = Inr (choice, c)
      \<and> get_prop choice ''finish_reason'' = Inr fr \<longrightarrow>
      (snd (chatWithAI_part000 fetch now args ctx) = Inl InsufficientBalance
         \<longleftrightarrow> fr = JBool False \<and> js_includes c ''Insufficient Balance'' = Inr True)
      \<and> (fr \<noteq> JBool False \<longrightarrow>
           snd (chatWithAI_part000 fetch now args ctx) =
             Inr \<lparr>messages = [\<lparr>role = ''user'', content = JStr (arg_message args)\<rparr>,
                              \<lparr>role = ''assistant'', content = c\<rparr>],
                  conversationId = JStr (new_conversation_id now (arg_conversationId args))\<rparr>))"
proof (rule conjI; rule impI)
  assume a: "fst (chatWithAI fetch now args ctx) = [req] \<and> fetch req = Some r \<and> ok r
      \<and> body_json r = Some data \<and> read_choice data = Inr (choice, c)
      \<and> get_prop choice ''finish_reason'' = Inr fr"
  then have "snd (chatWithAI fetch now args ctx) = handle_response now args (Some r)"
    using chatWithAI_reached by fastforce
  with a handle_response_balance [of r data choice c fr now args]
  show "(snd (chatWithAI fetch now args ctx) = Inl InsufficientBalance
         \<longleftrightarrow> fr = JBool False \<and> js_includes c ''Insufficient Balance'' = Inr True)
      \<and> (fr \<noteq> JBool False \<longrightarrow>
           snd (chatWithAI fetch now args ctx) =
             Inr \<lparr>messages = [\<lparr>role = ''user'', content = JStr (arg_message args)\<rparr>,
                              \<lparr>role = ''assistant'', content = c\<rparr>],
                  conversationId = JStr (new_conversation_id now (arg_conversationId args))\<rparr>)"
    by simp
next
  assume a: "fst (chatWithAI_part000 fetch now args ctx) = [req] \<and> fetch req = Some r \<and> ok r
      \<and> body_json r = Some data \<and> read_choice data = Inr (choice, c)
      \<and> get_prop choice ''finish_reason'' = Inr fr"
  then have "snd (chatWithAI_part000 fetch now args ctx) = handle_response now args (Some r)"
    using chatWithAI_part000_reached by fastforce
  with a handle_response_balance [of r data choice c fr now args]
  show "(snd (chatWithAI_part000 fetch now args ctx) = Inl InsufficientBalance
         \<longleftrightarrow> fr = JBool False \<and> js_includes c ''Insufficient Balance'' = Inr True)
      \<and> (fr \<noteq> JBool False \<longrightarrow>
           snd (chatWithAI_part000 fetch now args ctx) =
             Inr \<lparr>messages = [\<lparr>role = ''user'', content = JStr (arg_message args)\<rparr>,
                              \<lparr>role = ''assistant'', content = c\<rparr>],
                  conversationId = JStr (new_conversation_id now (arg_conversationId args))\<rparr>)"
    by simp
qed

theorem chatWithAI_balance_reply_witness:
  "fst (chatWithAI (upstream_replying (balance_reply (JBool False))) 5 example_args (Some example_ctx))
     = [example_request]
   \<and> snd (chatWithAI (upstream_replying (balance_reply (JBool False))) 5 example_args (Some example_ctx))
     = Inl InsufficientBalance
   \<and> snd (chatWithAI_part000 (upstream_replying (balance_reply (JBool False))) 5 example_args (Some example_ctx))
     = Inl InsufficientBalance
   \<and> snd (chatWithAI (upstream_replying (balance_reply (JStr ''stop''))) 5 example_args (Some example_ctx))
     = Inr \<lparr>messages = [\<lparr>role = ''user'', content = JStr ''Hello''\<rparr>,
                        \<lparr>role = ''assistant'', content = JStr ''Insufficient Balance''\<rparr>],
            conversationId = JStr ''session-5''\<rparr>"
proof -
  have f: "\<And>fr. upstream_replying (balance_reply fr) example_request = Some (balance_reply fr)"
    by (simp add: upstream_replying_def)
  have p: "\<And>fr. fst (chatWithAI (upstream_replying (balance_reply fr)) 5 example_args (Some example_ctx))
     = [example_request]"
    and p0: "\<And>fr. fst (chatWithAI_part000 (upstream_replying (balance_reply fr)) 5 example_args (Some example_ctx))
     = [example_request]"
    by (simp_all add: chatWithAI_example chatWithAI_part000_example)
  from chatWithAI_balance_reply [of "upstream_replying (balance_reply (JBool False))" 5 example_args
      "Some example_ctx" example_request "balance_reply (JBool False)"
      "completion (JStr ''Insufficient Balance'') (JBool False)" "balance_choice (JBool False)"
      "JStr ''Insufficient Balance''" "JBool False"]
    f p p0 balance_reply_facts [of "JBool False"] includes_balance_itself
  have 1: "snd (chatWithAI (upstream_replying (balance_reply (JBool False))) 5 example_args (Some example_ctx))
     = Inl InsufficientBalance"
    "snd (chatWithAI_part000 (upstream_replying (balance_reply (JBool False))) 5 example_args (Some example_ctx))
     = Inl InsufficientBalance"
    by simp_all
  from chatWithAI_balance_reply [of "upstream_replying (balance_reply (JStr ''stop''))" 5 example_args
      "Some example_ctx" example_request "balance_reply (JStr ''stop'')"
      "completion (JStr ''Insufficient Balance'') (JStr ''stop'')" "balance_choice (JStr ''stop'')"
      "JStr ''Insufficient Balance''" "JStr ''stop''"]
    f p p0 balance_reply_facts [of "JStr ''stop''"] includes_balance_itself
  have 2: "snd (chatWithAI (upstream_replying (balance_reply (JStr ''stop''))) 5 example_args (Some example_ctx))
     = Inr \<lparr>messages = [\<lparr>role = ''user'', content = JStr ''Hello''\<rparr>,
                        \<lparr>role = ''assistant'', content = JStr ''Insufficient Balance''\<rparr>],
            conversationId = JStr ''session-5''\<rparr>"
    by (simp add: example_args_def new_conversation_id_5)
  show ?thesis using p 1 2 by simp
qed

end
